theory Spec2Isabelle
  imports Main "HOL-Library.Multiset"
begin

section \<open>Strings and the built-ins of the host\<close>

text \<open>
  A JavaScript string is modelled by the bytes of its UTF-8 encoding (\<open>string\<close>, a list of
  8-bit characters); an ASCII string is its own encoding. The code units the source tests
  by value are ASCII (\<open>\w\<close>, \<open>\d\<close>, \<open>-\<close>, \<open>_\<close>, \<open>/\<close>, \<open>.\<close>, the letters of
  \<open>dot\<close> and \<open>http\<close>), with one exception: the white space that \<open>trim()\<close> strips and
  \<open>\s\<close> matches contains code points beyond ASCII. \<open>utf8_chars\<close> therefore groups the bytes
  of a string into code points, a continuation byte (\<open>10xxxxxx\<close>) staying with the byte
  before it, and \<open>whiteSpace\<close> lists the encodings of ECMAScript's WhiteSpace and
  LineTerminator code points.
\<close>

definition isContinuation :: "char \<Rightarrow> bool" where
  "isContinuation c = (128 \<le> (of_char c :: nat) \<and> (of_char c :: nat) < 192)"

fun utf8_chars :: "string \<Rightarrow> string list" where
  "utf8_chars [] = []"
| "utf8_chars (c # cs) =
     (case cs of
        [] \<Rightarrow> [[c]]
      | d # ds \<Rightarrow>
          (if isContinuation d
           then (case utf8_chars cs of [] \<Rightarrow> [[c]] | g # gs \<Rightarrow> (c # g) # gs)
           else [c] # utf8_chars cs))"

definition whiteSpace :: "string list" where
  "whiteSpace =
     [[CHR 0x09], [CHR 0x0A], [CHR 0x0B], [CHR 0x0C], [CHR 0x0D], [CHR 0x20],
      [CHR 0xC2, CHR 0xA0],
      [CHR 0xE1, CHR 0x9A, CHR 0x80],
      [CHR 0xE2, CHR 0x80, CHR 0x80], [CHR 0xE2, CHR 0x80, CHR 0x81],
      [CHR 0xE2, CHR 0x80, CHR 0x82], [CHR 0xE2, CHR 0x80, CHR 0x83],
      [CHR 0xE2, CHR 0x80, CHR 0x84], [CHR 0xE2, CHR 0x80, CHR 0x85],
      [CHR 0xE2, CHR 0x80, CHR 0x86], [CHR 0xE2, CHR 0x80, CHR 0x87],
      [CHR 0xE2, CHR 0x80, CHR 0x88], [CHR 0xE2, CHR 0x80, CHR 0x89],
      [CHR 0xE2, CHR 0x80, CHR 0x8A],
      [CHR 0xE2, CHR 0x80, CHR 0xA8], [CHR 0xE2, CHR 0x80, CHR 0xA9],
      [CHR 0xE2, CHR 0x80, CHR 0xAF],
      [CHR 0xE2, CHR 0x81, CHR 0x9F],
      [CHR 0xE3, CHR 0x80, CHR 0x80],
      [CHR 0xEF, CHR 0xBB, CHR 0xBF]]"

definition isWhiteSpace :: "string \<Rightarrow> bool" where
  "isWhiteSpace g = (g \<in> set whiteSpace)"

text \<open>\<open>String.prototype.trim\<close>: white space is dropped at both ends.\<close>

definition trim :: "string \<Rightarrow> string" where
  "trim s = concat (rev (dropWhile isWhiteSpace (rev (dropWhile isWhiteSpace (utf8_chars s)))))"

text \<open>A string that is empty or consists only of white space.\<close>

definition blank :: "string \<Rightarrow> bool" where
  "blank s = list_all isWhiteSpace (utf8_chars s)"

text \<open>
  Decimal digits of a number, as a template literal prints an integer
  (\<open>`${Date.now()}`\<close>).
\<close>

definition digit :: "nat \<Rightarrow> char" where
  "digit n = ''0123456789'' ! n"

fun dec :: "nat \<Rightarrow> string" where
  "dec n = (if n < 10 then [digit n] else dec (n div 10) @ [digit (n mod 10)])"

declare dec.simps [simp del]

definition showInt :: "int \<Rightarrow> string" where
  "showInt i = (if i < 0 then CHR ''-'' # dec (nat (- i)) else dec (nat i))"

text \<open>
  What the browser supplies to one call of an operation. The two reads of \<open>Date.now()\<close>
  that \<open>add\<close> makes (one inside \<open>genId\<close>, one for \<open>createdAt\<close>) are separate fields.
  \<open>Date_parse s\<close> is the time value of \<open>new Date(s)\<close>, \<open>None\<close> for an Invalid Date.
  \<open>today\<close> is the time value of
  \<open>new Date(now.getFullYear(), now.getMonth(), now.getDate())\<close>, the local midnight of the
  current day, and \<open>dayLength\<close> the number of milliseconds from it to the Date that
  \<open>setDate(getDate() + 1)\<close> makes of it (the next calendar day; 86400000 unless the clock
  changes that day). \<open>URL_parse s\<close> is \<open>new URL(s)\<close>, \<open>None\<close> when the constructor throws.
\<close>

record parsed_url =
  hostname :: string
  pathname :: string

record env =
  Date_now_id :: int
  random_suffix :: string
  Date_now :: int
  Date_parse :: "string \<Rightarrow> int option"
  today :: int
  dayLength :: nat
  URL_parse :: "string \<Rightarrow> parsed_url option"

text \<open>
  \<open>Storage.get\<close>: the item under the key is absent (\<open>getItem\<close> returns \<open>null\<close>), is
  not JSON (\<open>JSON.parse\<close> throws, the exception is caught), or holds a value.
\<close>

datatype 'a item = Absent | Corrupt | Holds 'a

definition Storage_get :: "'a item \<Rightarrow> 'a \<Rightarrow> 'a" where
  "Storage_get raw defaultValue =
     (case raw of Absent \<Rightarrow> defaultValue | Corrupt \<Rightarrow> defaultValue | Holds v \<Rightarrow> v)"

section \<open>The Task Store\<close>

record subtask =
  sub_id :: string
  sub_text :: string
  sub_completed :: bool

record todo =
  todo_id :: string
  todo_text :: string
  completed :: bool
  createdAt :: int
  deadline :: "string option"
  priority :: string
  subtasks :: "subtask list"
  categories :: "string list"

text \<open>
  A record as it is stored: the four newer fields may be missing (\<open>None\<close>). A stored
  deadline may be \<open>null\<close> (\<open>Some None\<close>).
\<close>

record stored_todo =
  st_id :: string
  st_text :: string
  st_completed :: bool
  st_createdAt :: int
  st_deadline :: "string option option"
  st_priority :: "string option"
  st_subtasks :: "subtask list option"
  st_categories :: "string list option"

text \<open>
  The module's state. \<open>written\<close> is the log of the calls \<open>Storage.set(STORAGE_KEY, todos)\<close>,
  newest first: each entry is the collection as it was serialised. \<open>render()\<close> reads the
  state and rebuilds the DOM; it changes no field of the state and is left out.
\<close>

record store =
  todos :: "todo list"
  currentFilter :: string
  currentSort :: string
  openSubtasks :: "string set"
  written :: "todo list list"

definition init_store :: store where
  "init_store = \<lparr>todos = [], currentFilter = ''all'', currentSort = ''newest'',
     openSubtasks = {}, written = []\<rparr>"

definition genId :: "env \<Rightarrow> string \<Rightarrow> string" where
  "genId e pre = pre @ ''_'' @ showInt (Date_now_id e) @ ''_'' @ random_suffix e"

definition parseDeadline :: "env \<Rightarrow> string \<Rightarrow> int option" where
  "parseDeadline e dateStr = Date_parse e (dateStr @ ''T00:00:00'')"

subsection \<open>Persistence\<close>

definition migrate :: "stored_todo \<Rightarrow> todo" where
  "migrate t =
     \<lparr>todo_id = st_id t, todo_text = st_text t, completed = st_completed t,
      createdAt = st_createdAt t,
      deadline = (case st_deadline t of None \<Rightarrow> None | Some d \<Rightarrow> d),
      priority = (case st_priority t of None \<Rightarrow> ''medium'' | Some p \<Rightarrow> p),
      subtasks = (case st_subtasks t of None \<Rightarrow> [] | Some ss \<Rightarrow> ss),
      categories = (case st_categories t of None \<Rightarrow> [] | Some cs \<Rightarrow> cs)\<rparr>"

definition load :: "stored_todo list item \<Rightarrow> store \<Rightarrow> store" where
  "load stored st = st\<lparr>todos := map migrate (Storage_get stored [])\<rparr>"

definition save :: "store \<Rightarrow> store" where
  "save st = st\<lparr>written := todos st # written st\<rparr>"

subsection \<open>Helpers\<close>

text \<open>
  \<open>!todo.deadline\<close> holds for \<open>null\<close> and for the empty string. A comparison with an
  Invalid Date is false.
\<close>

definition isOverdue :: "env \<Rightarrow> todo \<Rightarrow> bool" where
  "isOverdue e t =
     (case deadline t of
        None \<Rightarrow> False
      | Some d \<Rightarrow>
          if d = [] \<or> completed t then False
          else (case parseDeadline e d of None \<Rightarrow> False | Some due \<Rightarrow> due < today e))"

definition isWarning :: "env \<Rightarrow> todo \<Rightarrow> bool" where
  "isWarning e t =
     (case deadline t of
        None \<Rightarrow> False
      | Some d \<Rightarrow>
          if d = [] \<or> completed t then False
          else (let tomorrow = today e + int (dayLength e)
                in case parseDeadline e d of
                     None \<Rightarrow> False
                   | Some due \<Rightarrow> due \<ge> today e \<and> due \<le> tomorrow))"

definition priorityValue :: "string \<Rightarrow> int" where
  "priorityValue p = (if p = ''high'' then 3 else if p = ''low'' then 1 else 2)"

subsection \<open>CRUD\<close>

text \<open>
  \<open>todos.find(p)\<close> returns the first element that satisfies \<open>p\<close>; an assignment through
  the reference it returns changes that element in place.
\<close>

fun modify_first :: "('a \<Rightarrow> bool) \<Rightarrow> ('a \<Rightarrow> 'a) \<Rightarrow> 'a list \<Rightarrow> 'a list" where
  "modify_first p f [] = []"
| "modify_first p f (x # xs) = (if p x then f x # xs else x # modify_first p f xs)"

record add_opts =
  opt_deadline :: "string option"
  opt_priority :: "string option"
  opt_categories :: "string list option"

definition add :: "env \<Rightarrow> string \<Rightarrow> add_opts \<Rightarrow> store \<Rightarrow> store" where
  "add e txt opts st =
     (let trimmed = trim txt in
      if trimmed = [] then st
      else
        (let t = \<lparr>todo_id = genId e ''todo'',
                  todo_text = trimmed,
                  completed = False,
                  createdAt = Date_now e,
                  deadline = (case opt_deadline opts of
                                None \<Rightarrow> None
                              | Some d \<Rightarrow> if d = [] then None else Some d),
                  priority = (case opt_priority opts of
                                None \<Rightarrow> ''medium''
                              | Some p \<Rightarrow> if p = [] then ''medium'' else p),
                  subtasks = [],
                  categories = (case opt_categories opts of None \<Rightarrow> [] | Some cs \<Rightarrow> cs)\<rparr>
         in save (st\<lparr>todos := t # todos st\<rparr>)))"

definition toggle :: "string \<Rightarrow> store \<Rightarrow> store" where
  "toggle i st =
     (case List.find (\<lambda>t. todo_id t = i) (todos st) of
        None \<Rightarrow> st
      | Some _ \<Rightarrow>
          save (st\<lparr>todos := modify_first (\<lambda>t. todo_id t = i)
                                (\<lambda>t. t\<lparr>completed := \<not> completed t\<rparr>) (todos st)\<rparr>))"

definition update :: "string \<Rightarrow> string \<Rightarrow> store \<Rightarrow> store" where
  "update i newText st =
     (let trimmed = trim newText in
      if trimmed = [] then st
      else
        (case List.find (\<lambda>t. todo_id t = i) (todos st) of
           None \<Rightarrow> st
         | Some _ \<Rightarrow>
             save (st\<lparr>todos := modify_first (\<lambda>t. todo_id t = i)
                                   (\<lambda>t. t\<lparr>todo_text := trimmed\<rparr>) (todos st)\<rparr>)))"

definition remove :: "string \<Rightarrow> store \<Rightarrow> store" where
  "remove i st = save (st\<lparr>todos := filter (\<lambda>t. todo_id t \<noteq> i) (todos st)\<rparr>)"

subsection \<open>Subtask CRUD\<close>

definition addSubtask :: "env \<Rightarrow> string \<Rightarrow> string \<Rightarrow> store \<Rightarrow> store" where
  "addSubtask e todoId txt st =
     (let trimmed = trim txt in
      if trimmed = [] then st
      else
        (case List.find (\<lambda>t. todo_id t = todoId) (todos st) of
           None \<Rightarrow> st
         | Some _ \<Rightarrow>
             save (st\<lparr>todos := modify_first (\<lambda>t. todo_id t = todoId)
                     (\<lambda>t. t\<lparr>subtasks := subtasks t @
                        [\<lparr>sub_id = genId e ''sub'', sub_text = trimmed,
                          sub_completed = False\<rparr>]\<rparr>)
                     (todos st)\<rparr>)))"

definition toggleSubtask :: "string \<Rightarrow> string \<Rightarrow> store \<Rightarrow> store" where
  "toggleSubtask todoId subId st =
     (case List.find (\<lambda>t. todo_id t = todoId) (todos st) of
        None \<Rightarrow> st
      | Some t \<Rightarrow>
          (case List.find (\<lambda>s. sub_id s = subId) (subtasks t) of
             None \<Rightarrow> st
           | Some _ \<Rightarrow>
               save (st\<lparr>todos := modify_first (\<lambda>t. todo_id t = todoId)
                       (\<lambda>t. t\<lparr>subtasks := modify_first (\<lambda>s. sub_id s = subId)
                                (\<lambda>s. s\<lparr>sub_completed := \<not> sub_completed s\<rparr>) (subtasks t)\<rparr>)
                       (todos st)\<rparr>)))"

definition removeSubtask :: "string \<Rightarrow> string \<Rightarrow> store \<Rightarrow> store" where
  "removeSubtask todoId subId st =
     (case List.find (\<lambda>t. todo_id t = todoId) (todos st) of
        None \<Rightarrow> st
      | Some _ \<Rightarrow>
          save (st\<lparr>todos := modify_first (\<lambda>t. todo_id t = todoId)
                  (\<lambda>t. t\<lparr>subtasks := filter (\<lambda>s. sub_id s \<noteq> subId) (subtasks t)\<rparr>)
                  (todos st)\<rparr>))"

subsection \<open>The visible list\<close>

text \<open>
  \<open>Array.prototype.sort(comparefn)\<close> is stable: it places \<open>a\<close> before \<open>b\<close> when
  \<open>comparefn(a, b) < 0\<close>, after it when \<open>comparefn(a, b) > 0\<close>, and keeps their order
  otherwise (a \<open>NaN\<close> is read as \<open>+0\<close>). For a comparator that is a consistent ordering the
  result is the one stable sorted arrangement, which insertion from the right computes:
  an element goes before the first element of the sorted rest that it does not follow.
  The comparator \<open>cmp\<close> returns the number the source's comparator returns.
\<close>

fun insert_cmp :: "('a \<Rightarrow> 'a \<Rightarrow> int) \<Rightarrow> 'a \<Rightarrow> 'a list \<Rightarrow> 'a list" where
  "insert_cmp cmp x [] = [x]"
| "insert_cmp cmp x (y # ys) =
     (if cmp x y \<le> 0 then x # y # ys else y # insert_cmp cmp x ys)"

definition Array_sort :: "('a \<Rightarrow> 'a \<Rightarrow> int) \<Rightarrow> 'a list \<Rightarrow> 'a list" where
  "Array_sort cmp xs = foldr (insert_cmp cmp) xs []"

text \<open>
  The key of the \<open>deadline\<close> comparator,
  \<open>a.deadline ? parseDeadline(a.deadline).getTime() : Infinity\<close>, and the difference
  \<open>da - db\<close> as the sort reads it: \<open>Infinity - Infinity\<close> and every difference with a
  \<open>NaN\<close> are \<open>NaN\<close>, read as 0; an infinite difference counts by its sign.
\<close>

datatype num = Finite int | Infinity | NaN

definition deadlineTime :: "env \<Rightarrow> todo \<Rightarrow> num" where
  "deadlineTime e t =
     (case deadline t of
        None \<Rightarrow> Infinity
      | Some d \<Rightarrow>
          if d = [] then Infinity
          else (case parseDeadline e d of None \<Rightarrow> NaN | Some v \<Rightarrow> Finite v))"

fun minus_num :: "num \<Rightarrow> num \<Rightarrow> int" where
  "minus_num (Finite a) (Finite b) = a - b"
| "minus_num (Finite a) Infinity = - 1"
| "minus_num Infinity (Finite b) = 1"
| "minus_num Infinity Infinity = 0"
| "minus_num NaN b = 0"
| "minus_num a NaN = 0"

definition applyFilter :: "env \<Rightarrow> string \<Rightarrow> todo list \<Rightarrow> todo list" where
  "applyFilter e f list =
     (if f = ''active'' then filter (\<lambda>t. \<not> completed t) list
      else if f = ''completed'' then filter (\<lambda>t. completed t) list
      else if f = ''overdue'' then filter (\<lambda>t. isOverdue e t) list
      else list)"

definition applySort :: "env \<Rightarrow> string \<Rightarrow> todo list \<Rightarrow> todo list" where
  "applySort e s list =
     (if s = ''oldest'' then Array_sort (\<lambda>a b. createdAt a - createdAt b) list
      else if s = ''deadline''
        then Array_sort (\<lambda>a b. minus_num (deadlineTime e a) (deadlineTime e b)) list
      else if s = ''priority''
        then Array_sort (\<lambda>a b. priorityValue (priority b) - priorityValue (priority a)) list
      else Array_sort (\<lambda>a b. createdAt b - createdAt a) list)"

definition getVisible :: "env \<Rightarrow> store \<Rightarrow> todo list" where
  "getVisible e st = applySort e (currentSort st) (applyFilter e (currentFilter st) (todos st))"

subsection \<open>The operations as the user interface issues them\<close>

text \<open>
  One constructor per mutating entry point: \<open>load\<close> (from \<open>init\<close>), the CRUD operations,
  and the handlers of \<open>init\<close> and \<open>buildTodoEl\<close> that assign \<open>currentFilter\<close>,
  \<open>currentSort\<close> and \<open>openSubtasks\<close>.
\<close>

datatype action =
    Load "stored_todo list item"
  | Add env string add_opts
  | Toggle string
  | Update string string
  | Remove string
  | AddSubtask env string string
  | ToggleSubtask string string
  | RemoveSubtask string string
  | SetFilter string
  | SetSort string
  | OpenSubtasks string
  | CloseSubtasks string

fun exec :: "action \<Rightarrow> store \<Rightarrow> store" where
  "exec (Load stored) st = load stored st"
| "exec (Add e txt opts) st = add e txt opts st"
| "exec (Toggle i) st = toggle i st"
| "exec (Update i txt) st = update i txt st"
| "exec (Remove i) st = remove i st"
| "exec (AddSubtask e i txt) st = addSubtask e i txt st"
| "exec (ToggleSubtask i j) st = toggleSubtask i j st"
| "exec (RemoveSubtask i j) st = removeSubtask i j st"
| "exec (SetFilter f) st = st\<lparr>currentFilter := f\<rparr>"
| "exec (SetSort s) st = st\<lparr>currentSort := s\<rparr>"
| "exec (OpenSubtasks i) st = st\<lparr>openSubtasks := insert i (openSubtasks st)\<rparr>"
| "exec (CloseSubtasks i) st = st\<lparr>openSubtasks := openSubtasks st - {i}\<rparr>"

text \<open>The state after a sequence of operations, starting from the module's initial state.\<close>

definition run :: "action list \<Rightarrow> store" where
  "run as = fold exec as init_store"

section \<open>The Link Store\<close>

record link =
  link_id :: string
  url :: string
  description :: string
  link_createdAt :: int

record link_store =
  links :: "link list"
  links_written :: "link list list"

definition Links_save :: "link_store \<Rightarrow> link_store" where
  "Links_save st = st\<lparr>links_written := links st # links_written st\<rparr>"

subsection \<open>Character classes and the regular expressions of the source\<close>

definition isDigit :: "char \<Rightarrow> bool" where
  "isDigit c = (48 \<le> (of_char c :: nat) \<and> (of_char c :: nat) \<le> 57)"

definition isUpper :: "char \<Rightarrow> bool" where
  "isUpper c = (65 \<le> (of_char c :: nat) \<and> (of_char c :: nat) \<le> 90)"

definition isLower :: "char \<Rightarrow> bool" where
  "isLower c = (97 \<le> (of_char c :: nat) \<and> (of_char c :: nat) \<le> 122)"

text \<open>\<open>\w\<close> is \<open>[A-Za-z0-9_]\<close>.\<close>

definition isWordChar :: "char \<Rightarrow> bool" where
  "isWordChar c = (isUpper c \<or> isLower c \<or> isDigit c \<or> c = CHR ''_'')"

definition toLower :: "char \<Rightarrow> char" where
  "toLower c = (if isUpper c then char_of ((of_char c :: nat) + 32) else c)"

definition toUpper :: "char \<Rightarrow> char" where
  "toUpper c = (if isLower c then char_of ((of_char c :: nat) - 32) else c)"

text \<open>
  A literal of a pattern with the \<open>i\<close> flag, matched at the head of a string: the ASCII
  letters match in either case.
\<close>

definition starts_ci :: "string \<Rightarrow> string \<Rightarrow> bool" where
  "starts_ci lit s =
     (length lit \<le> length s \<and> map toLower (take (length lit) s) = map toLower lit)"

text \<open>\<open>/^https?:\/\//i.test(s)\<close>\<close>

definition hasHttpScheme :: "string \<Rightarrow> bool" where
  "hasHttpScheme s = (starts_ci ''http://'' s \<or> starts_ci ''https://'' s)"

text \<open>
  \<open>/\b\w+\.(com|org|net|edu|gov|io|co|uk|dev|app|ai)\b/i.test(transcript)\<close>.
  \<open>tldHere s\<close>: one of the alternatives stands at the head of \<open>s\<close> and a word boundary
  follows it (the string ends there or a character that is not a word character comes
  next). \<open>matchHere s\<close>: \<open>\w+\.(...)\b\<close> matches at the head of \<open>s\<close>; the \<open>\w+\<close> has to
  take the whole run of word characters, since the next character must be the dot.
  \<open>matchFrom b s\<close> tries every start position of \<open>s\<close>; \<open>b\<close> tells whether the leading
  \<open>\b\<close> holds at the head, that is whether no word character stands before it.
\<close>

definition tlds :: "string list" where
  "tlds = [''com'', ''org'', ''net'', ''edu'', ''gov'', ''io'', ''co'', ''uk'', ''dev'',
           ''app'', ''ai'']"

definition wordEnds :: "string \<Rightarrow> bool" where
  "wordEnds s = (case s of [] \<Rightarrow> True | c # _ \<Rightarrow> \<not> isWordChar c)"

definition tldHere :: "string \<Rightarrow> bool" where
  "tldHere s = list_ex (\<lambda>t. starts_ci t s \<and> wordEnds (drop (length t) s)) tlds"

definition matchHere :: "string \<Rightarrow> bool" where
  "matchHere s =
     (takeWhile isWordChar s \<noteq> [] \<and>
      (case dropWhile isWordChar s of
         [] \<Rightarrow> False
       | c # r \<Rightarrow> c = CHR ''.'' \<and> tldHere r))"

fun matchFrom :: "bool \<Rightarrow> string \<Rightarrow> bool" where
  "matchFrom b [] = False"
| "matchFrom b (c # cs) = ((b \<and> matchHere (c # cs)) \<or> matchFrom (\<not> isWordChar c) cs)"

definition looksLikeUrl :: "string \<Rightarrow> bool" where
  "looksLikeUrl transcript = matchFrom True transcript"

text \<open>\<open>s.replace(/\s+/g, '')\<close>\<close>

definition removeSpaces :: "string \<Rightarrow> string" where
  "removeSpaces s = concat (filter (\<lambda>g. \<not> isWhiteSpace g) (utf8_chars s))"

text \<open>\<open>s.replace(/dot/gi, '.')\<close>: the occurrences are taken from the left, without overlap.\<close>

fun replaceDot :: "string \<Rightarrow> string" where
  "replaceDot (a # b # c # rest) =
     (if toLower a = CHR ''d'' \<and> toLower b = CHR ''o'' \<and> toLower c = CHR ''t''
      then CHR ''.'' # replaceDot rest
      else a # replaceDot (b # c # rest))"
| "replaceDot s = s"

text \<open>
  \<open>encodeURIComponent\<close>: the letters, the digits and \<open>- _ . ! ~ * ' ( )\<close> stay; every
  other byte of the UTF-8 encoding becomes \<open>%XX\<close>, in upper-case hexadecimal.
\<close>

definition hexDigit :: "nat \<Rightarrow> char" where
  "hexDigit n = ''0123456789ABCDEF'' ! n"

definition isUnreserved :: "char \<Rightarrow> bool" where
  "isUnreserved c =
     (isUpper c \<or> isLower c \<or> isDigit c \<or> c \<in> set ''-_.!~*()'' \<or> c = CHR 0x27)"

definition encodeURIComponent :: "string \<Rightarrow> string" where
  "encodeURIComponent s =
     concat (map (\<lambda>c. if isUnreserved c then [c]
                       else [CHR ''%'', hexDigit ((of_char c :: nat) div 16),
                             hexDigit ((of_char c :: nat) mod 16)]) s)"

subsection \<open>Auto-description\<close>

text \<open>\<open>s.split('/')\<close>\<close>

fun split_slash :: "string \<Rightarrow> string list" where
  "split_slash [] = [[]]"
| "split_slash (c # cs) =
     (if c = CHR ''/'' then [] # split_slash cs
      else (case split_slash cs of [] \<Rightarrow> [[c]] | p # ps \<Rightarrow> (c # p) # ps))"

text \<open>\<open>hostname.replace(/^www\./, '')\<close>\<close>

definition stripWww :: "string \<Rightarrow> string" where
  "stripWww h = (if take 4 h = ''www.'' then drop 4 h else h)"

text \<open>
  \<open>cap\<close>: \<open>s.charAt(0).toUpperCase() + s.slice(1)\<close>. The host name and the path of a parsed
  URL are ASCII, on which \<open>toUpperCase\<close> is \<open>toUpper\<close>.
\<close>

definition cap :: "string \<Rightarrow> string" where
  "cap s = (case s of [] \<Rightarrow> [] | c # cs \<Rightarrow> toUpper c # cs)"

text \<open>\<open>/^\d+$/.test(p)\<close>\<close>

definition allDigits :: "string \<Rightarrow> bool" where
  "allDigits p = (p \<noteq> [] \<and> list_all isDigit p)"

definition autoDescribe :: "env \<Rightarrow> string \<Rightarrow> string" where
  "autoDescribe e u =
     (case URL_parse e u of
        None \<Rightarrow> u
      | Some parsed \<Rightarrow>
          (let host = stripWww (hostname parsed);
               parts = filter (\<lambda>s. s \<noteq> [])
                         (map (\<lambda>s. trim (map (\<lambda>c. if c = CHR ''-'' \<or> c = CHR ''_''
                                                    then CHR '' '' else c) s))
                              (split_slash (pathname parsed)))
           in if parts = [] then cap host
              else (case List.find (\<lambda>p. \<not> allDigits p \<and> length p > 1) (rev parts) of
                      Some lastMeaningful \<Rightarrow>
                        cap lastMeaningful @ [CHR 0x20, CHR 0xE2, CHR 0x80, CHR 0x94, CHR 0x20]
                          @ host
                    | None \<Rightarrow> cap host)))"

subsection \<open>CRUD and the voice handler\<close>

definition Links_add :: "env \<Rightarrow> string \<Rightarrow> link_store \<Rightarrow> link_store" where
  "Links_add e rawUrl st =
     (let u = trim rawUrl in
      if u = [] then st
      else
        (let u' = (if hasHttpScheme u then u else ''https://'' @ u);
             l = \<lparr>link_id = ''link_'' @ showInt (Date_now_id e) @ ''_'' @ random_suffix e,
                  url = u',
                  description = autoDescribe e u',
                  link_createdAt = Date_now e\<rparr>
         in Links_save (st\<lparr>links := l # links st\<rparr>)))"

text \<open>
  \<open>onResult(transcript)\<close> of the link microphone. \<open>new URL(candidate)\<close> throws inside the
  \<open>try\<close>; the \<open>catch\<close> adds the search link.
\<close>

definition searchUrl :: "string \<Rightarrow> string" where
  "searchUrl transcript = ''https://www.google.com/search?q='' @ encodeURIComponent transcript"

definition onResult :: "env \<Rightarrow> string \<Rightarrow> link_store \<Rightarrow> link_store" where
  "onResult e transcript st =
     (if looksLikeUrl transcript then
        (let cleaned = replaceDot (removeSpaces transcript);
             candidate = (if hasHttpScheme cleaned then cleaned else ''https://'' @ cleaned)
         in case URL_parse e candidate of
              Some _ \<Rightarrow> Links_add e cleaned st
            | None \<Rightarrow> Links_add e (searchUrl transcript) st)
      else Links_add e (searchUrl transcript) st)"

section \<open>Properties as predicates, and sample values\<close>

text \<open>
  An operation supplies a recognised priority: an \<open>add\<close> passes no priority, the empty
  string, or one of \<open>low\<close>, \<open>medium\<close>, \<open>high\<close>; a \<open>load\<close> reads records whose stored
  priority is missing or one of the three. The other operations supply none.
\<close>

definition recognised :: "string \<Rightarrow> bool" where
  "recognised p = (p = ''low'' \<or> p = ''medium'' \<or> p = ''high'')"

fun suppliesRecognised :: "action \<Rightarrow> bool" where
  "suppliesRecognised (Add e txt opts) =
     (case opt_priority opts of None \<Rightarrow> True | Some p \<Rightarrow> p = [] \<or> recognised p)"
| "suppliesRecognised (Load stored) =
     list_all (\<lambda>s. case st_priority s of None \<Rightarrow> True | Some p \<Rightarrow> recognised p)
       (Storage_get stored [])"
| "suppliesRecognised a = True"

text \<open>
  A browser in the time zone UTC on 1 May 2024, and a collection of four tasks
  (newest first) met on that day.
\<close>

definition sample_env :: env where
  "sample_env =
     \<lparr>Date_now_id = 1714557600000, random_suffix = ''k3x9q'', Date_now = 1714557600001,
      Date_parse = (\<lambda>s. if s = ''2024-04-30T00:00:00'' then Some 1714435200000
                         else if s = ''2024-05-01T00:00:00'' then Some 1714521600000
                         else if s = ''2024-05-02T00:00:00'' then Some 1714608000000
                         else None),
      today = 1714521600000, dayLength = 86400000,
      URL_parse = (\<lambda>s. if s = ''https://example.com/my-great-post''
                        then Some \<lparr>hostname = ''example.com'', pathname = ''/my-great-post''\<rparr>
                        else None)\<rparr>"

definition task_milk :: todo where
  "task_milk = \<lparr>todo_id = ''todo_4'', todo_text = ''buy milk'', completed = False,
     createdAt = 1714550000000, deadline = Some ''2024-05-01'', priority = ''low'',
     subtasks = [], categories = [''home'']\<rparr>"

definition task_call :: todo where
  "task_call = \<lparr>todo_id = ''todo_3'', todo_text = ''call the bank'', completed = False,
     createdAt = 1714500000000, deadline = None, priority = ''high'',
     subtasks = [], categories = []\<rparr>"

definition task_report :: todo where
  "task_report = \<lparr>todo_id = ''todo_2'', todo_text = ''write report'', completed = True,
     createdAt = 1714400000000, deadline = Some ''2024-04-30'', priority = ''medium'',
     subtasks = [\<lparr>sub_id = ''sub_1'', sub_text = ''outline'', sub_completed = True\<rparr>],
     categories = [''work'']\<rparr>"

definition task_rent :: todo where
  "task_rent = \<lparr>todo_id = ''todo_1'', todo_text = ''pay rent'', completed = False,
     createdAt = 1714300000000, deadline = Some ''2024-04-30'', priority = ''high'',
     subtasks = [], categories = [''home'']\<rparr>"

definition sample_store :: store where
  "sample_store = \<lparr>todos = [task_milk, task_call, task_report, task_rent],
     currentFilter = ''all'', currentSort = ''newest'', openSubtasks = {}, written = []\<rparr>"

text \<open>A record stored before the newer fields existed, and one stored with them.\<close>

definition stored_old :: stored_todo where
  "stored_old = \<lparr>st_id = ''todo_0'', st_text = ''water plants'', st_completed = False,
     st_createdAt = 1700000000000, st_deadline = None, st_priority = None,
     st_subtasks = None, st_categories = None\<rparr>"

definition stored_new :: stored_todo where
  "stored_new = \<lparr>st_id = ''todo_1'', st_text = ''pay rent'', st_completed = False,
     st_createdAt = 1714300000000, st_deadline = Some (Some ''2024-04-30''),
     st_priority = Some ''high'', st_subtasks = Some [], st_categories = Some [''home'']\<rparr>"

definition empty_links :: link_store where
  "empty_links = \<lparr>links = [], links_written = []\<rparr>"

section \<open>Properties of the Task Store\<close>

subsection \<open>Blank text and double toggle\<close>

lemma trim_blank: "blank s \<Longrightarrow> trim s = []"
proof -
  assume "blank s"
  then have h: "dropWhile isWhiteSpace (utf8_chars s) = []"
    by (simp add: blank_def list_all_iff dropWhile_eq_Nil_conv)
  show ?thesis
    unfolding trim_def h by simp
qed

lemma modify_first_twice:
  "(\<And>x. p x \<Longrightarrow> p (f x)) \<Longrightarrow> modify_first p f (modify_first p f xs) = modify_first p (f \<circ> f) xs"
  by (induction xs) auto

lemma modify_first_id: "(\<And>x. x \<in> set xs \<Longrightarrow> f x = x) \<Longrightarrow> modify_first p f xs = xs"
  by (induction xs) auto

lemma find_modify_first:
  "(\<And>x. p (f x) = p x) \<Longrightarrow> List.find p (modify_first p f xs) = map_option f (List.find p xs)"
  by (induction xs) auto

lemma modify_first_split:
  "List.find p xs = Some x \<Longrightarrow>
   \<exists>ys zs. xs = ys @ x # zs \<and> (\<forall>y\<in>set ys. \<not> p y) \<and> p x \<and> modify_first p f xs = ys @ f x # zs"
proof (induction xs)
  case Nil then show ?case by simp
next
  case (Cons a xs)
  show ?case
  proof (cases "p a")
    case True
    with Cons.prems have "a = x" by simp
    with True show ?thesis by (intro exI[of _ "[]"] exI[of _ xs]) simp
  next
    case False
    with Cons.prems have "List.find p xs = Some x" by simp
    from Cons.IH[OF this] obtain ys zs where
      h: "xs = ys @ x # zs" "\<forall>y\<in>set ys. \<not> p y" "p x" "modify_first p f xs = ys @ f x # zs" by blast
    with False show ?thesis
      by (intro exI[of _ "a # ys"] exI[of _ zs]) simp
  qed
qed

lemma find_present: "i \<in> f ` set xs \<Longrightarrow> \<exists>x. List.find (\<lambda>t. f t = i) xs = Some x"
  by (induction xs) auto

text \<open>
  Claim C9. For a task id present in the collection, \<open>toggle(id)\<close> flips the completion
  flag of the first task with that id and of nothing else, and writes the collection;
  applied twice it gives back the original collection, every other field of the state
  unchanged, with two entries more in the log of writes: the collection after the first
  call, then the original collection.
\<close>

theorem toggle_twice:
  assumes "i \<in> todo_id ` set (todos st)"
  shows "\<exists>ys t zs.
           todos st = ys @ t # zs \<and> todo_id t = i \<and> (\<forall>y\<in>set ys. todo_id y \<noteq> i) \<and>
           toggle i st =
             st\<lparr>todos := ys @ t\<lparr>completed := \<not> completed t\<rparr> # zs,
                written := (ys @ t\<lparr>completed := \<not> completed t\<rparr> # zs) # written st\<rparr> \<and>
           toggle i (toggle i st) =
             st\<lparr>written := todos st # (ys @ t\<lparr>completed := \<not> completed t\<rparr> # zs) # written st\<rparr>"
proof -
  let ?p = "\<lambda>t. todo_id t = i"
  let ?f = "\<lambda>t. t\<lparr>completed := \<not> completed t\<rparr>"
  from assms obtain t where ft: "List.find ?p (todos st) = Some t"
    using find_present by fastforce
  from modify_first_split[OF ft, of ?f] obtain ys zs where
    h: "todos st = ys @ t # zs" "\<forall>y\<in>set ys. todo_id y \<noteq> i" "todo_id t = i"
       "modify_first ?p ?f (todos st) = ys @ ?f t # zs" by blast
  have one: "toggle i st = st\<lparr>todos := ys @ ?f t # zs, written := (ys @ ?f t # zs) # written st\<rparr>"
    using ft h(4) by (simp add: toggle_def save_def)
  have f2: "List.find ?p (ys @ ?f t # zs) = Some (?f t)"
    using ft h(4) find_modify_first[of ?p ?f "todos st"] by simp
  have m2: "modify_first ?p ?f (ys @ ?f t # zs) = todos st"
  proof -
    have "modify_first ?p ?f (modify_first ?p ?f (todos st)) = modify_first ?p (?f \<circ> ?f) (todos st)"
      by (rule modify_first_twice) simp
    also have "\<dots> = todos st" by (rule modify_first_id) simp
    finally show ?thesis using h(4) by simp
  qed
  have two: "toggle i (toggle i st) = st\<lparr>written := todos st # (ys @ ?f t # zs) # written st\<rparr>"
    unfolding one using f2 m2 by (simp add: toggle_def save_def)
  from h(1,2,3) one two show ?thesis by blast
qed

text \<open>
  Claim C5. For a text that is empty or consists only of white space, \<open>add\<close>, \<open>update\<close>
  and \<open>addSubtask\<close> return the state they were given: the collection, every subtask list
  and the log of writes are unchanged.
\<close>

theorem blank_text_is_noop:
  "blank txt \<Longrightarrow> add e txt opts st = st \<and> update i txt st = st \<and> addSubtask e i txt st = st"
  by (simp add: add_def update_def addSubtask_def trim_blank)

text \<open>The text made of a space, a tab, a no-break space and a line feed.\<close>

theorem blank_text_is_noop_witness:
  "blank [CHR 0x20, CHR 0x09, CHR 0xC2, CHR 0xA0, CHR 0x0A] \<and>
   add sample_env [CHR 0x20, CHR 0x09, CHR 0xC2, CHR 0xA0, CHR 0x0A]
     \<lparr>opt_deadline = None, opt_priority = Some ''high'', opt_categories = None\<rparr> sample_store = sample_store \<and>
   update ''todo_1'' [CHR 0x20, CHR 0x09, CHR 0xC2, CHR 0xA0, CHR 0x0A] sample_store = sample_store \<and>
   addSubtask sample_env ''todo_1'' [CHR 0x20, CHR 0x09, CHR 0xC2, CHR 0xA0, CHR 0x0A] sample_store = sample_store"
proof -
  have b: "blank [CHR 0x20, CHR 0x09, CHR 0xC2, CHR 0xA0, CHR 0x0A]"
    by (simp add: blank_def isWhiteSpace_def whiteSpace_def isContinuation_def)
  from blank_text_is_noop[OF b] b show ?thesis by blast
qed

text \<open>Toggling the completed task \<open>todo_2\<close> of the sample collection twice.\<close>

theorem toggle_twice_witness:
  "''todo_2'' \<in> todo_id ` set (todos sample_store) \<and>
   todos (toggle ''todo_2'' sample_store) =
     [task_milk, task_call, task_report\<lparr>completed := False\<rparr>, task_rent] \<and>
   toggle ''todo_2'' (toggle ''todo_2'' sample_store) =
     sample_store\<lparr>written := [todos sample_store,
        [task_milk, task_call, task_report\<lparr>completed := False\<rparr>, task_rent]]\<rparr>"
proof -
  have p: "''todo_2'' \<in> todo_id ` set (todos sample_store)"
    by (simp add: sample_store_def task_milk_def task_call_def task_report_def task_rent_def)
  have one: "todos (toggle ''todo_2'' sample_store) =
     [task_milk, task_call, task_report\<lparr>completed := False\<rparr>, task_rent]"
    by (simp add: toggle_def save_def sample_store_def task_milk_def task_call_def task_report_def task_rent_def)
  from toggle_twice[OF p] obtain ys t zs where
    h: "toggle ''todo_2'' sample_store =
          sample_store\<lparr>todos := ys @ t\<lparr>completed := \<not> completed t\<rparr> # zs,
             written := (ys @ t\<lparr>completed := \<not> completed t\<rparr> # zs) # written sample_store\<rparr>"
       "toggle ''todo_2'' (toggle ''todo_2'' sample_store) =
          sample_store\<lparr>written := todos sample_store # (ys @ t\<lparr>completed := \<not> completed t\<rparr> # zs) # written sample_store\<rparr>"
    by blast
  from h(1) one have "ys @ t\<lparr>completed := \<not> completed t\<rparr> # zs = [task_milk, task_call, task_report\<lparr>completed := False\<rparr>, task_rent]"
    by simp
  with h(2) have "toggle ''todo_2'' (toggle ''todo_2'' sample_store) =
     sample_store\<lparr>written := todos sample_store # [task_milk, task_call, task_report\<lparr>completed := False\<rparr>, task_rent] # written sample_store\<rparr>"
    by simp
  moreover have "written sample_store = []" by (simp add: sample_store_def)
  ultimately show ?thesis using p one by simp
qed

subsection \<open>Migration on load\<close>

text \<open>
  Claim C8. \<open>load()\<close> yields one task per stored record, in the stored order; a field
  the stored record lacks gets its default (\<open>deadline: null\<close>, \<open>priority: 'medium'\<close>,
  \<open>subtasks: []\<close>, \<open>categories: []\<close>), a field it has keeps the stored value; nothing
  is written and no other field of the state changes. An absent or corrupt item is read
  as the empty array.
\<close>

theorem load_migrates:
  "length (todos (load stored st)) = length (Storage_get stored []) \<and>
   (\<forall>k < length (Storage_get stored []).
      let s = Storage_get stored [] ! k; t = todos (load stored st) ! k
      in todo_id t = st_id s \<and> todo_text t = st_text s \<and> completed t = st_completed s \<and>
         createdAt t = st_createdAt s \<and>
         deadline t = (case st_deadline s of None \<Rightarrow> None | Some d \<Rightarrow> d) \<and>
         priority t = (case st_priority s of None \<Rightarrow> ''medium'' | Some p \<Rightarrow> p) \<and>
         subtasks t = (case st_subtasks s of None \<Rightarrow> [] | Some ss \<Rightarrow> ss) \<and>
         categories t = (case st_categories s of None \<Rightarrow> [] | Some cs \<Rightarrow> cs)) \<and>
   written (load stored st) = written st \<and>
   load stored st = st\<lparr>todos := todos (load stored st)\<rparr>"
  by (simp add: load_def migrate_def Let_def)

text \<open>Loading one record without the newer fields and one with them.\<close>

theorem load_migrates_witness:
  "todos (load (Holds [stored_old, stored_new]) sample_store) =
     [\<lparr>todo_id = ''todo_0'', todo_text = ''water plants'', completed = False,
       createdAt = 1700000000000, deadline = None, priority = ''medium'',
       subtasks = [], categories = []\<rparr>,
      task_rent] \<and>
   written (load (Holds [stored_old, stored_new]) sample_store) = written sample_store"
proof -
  have "todos (load (Holds [stored_old, stored_new]) sample_store) =
     [\<lparr>todo_id = ''todo_0'', todo_text = ''water plants'', completed = False,
       createdAt = 1700000000000, deadline = None, priority = ''medium'',
       subtasks = [], categories = []\<rparr>, task_rent]"
    by (simp add: load_def migrate_def Storage_get_def stored_old_def stored_new_def task_rent_def)
  with load_migrates[of "Holds [stored_old, stored_new]" sample_store] show ?thesis by simp
qed

subsection \<open>Overdue and warning\<close>

text \<open>
  Claim C7. A task that is not completed and whose deadline parses to today's local
  midnight is a warning and is not overdue; a task that is completed or has no deadline
  is neither.
\<close>

theorem deadline_today:
  "(\<not> completed t \<and> deadline t = Some d \<and> d \<noteq> [] \<and> parseDeadline e d = Some (today e)
      \<longrightarrow> isWarning e t \<and> \<not> isOverdue e t) \<and>
   (completed t \<or> deadline t = None \<longrightarrow> \<not> isWarning e t \<and> \<not> isOverdue e t)"
  by (auto simp: isWarning_def isOverdue_def Let_def split: option.splits)

text \<open>
  On 1 May 2024: the open task due that day, the completed task, and the task without
  a deadline.
\<close>

theorem deadline_today_witness:
  "\<not> completed task_milk \<and> deadline task_milk = Some ''2024-05-01'' \<and>
   parseDeadline sample_env ''2024-05-01'' = Some (today sample_env) \<and>
   isWarning sample_env task_milk \<and> \<not> isOverdue sample_env task_milk \<and>
   completed task_report \<and> \<not> isWarning sample_env task_report \<and> \<not> isOverdue sample_env task_report \<and>
   deadline task_call = None \<and> \<not> isWarning sample_env task_call \<and> \<not> isOverdue sample_env task_call"
proof -
  have a: "\<not> completed task_milk \<and> deadline task_milk = Some ''2024-05-01'' \<and> ''2024-05-01'' \<noteq> [] \<and>
     parseDeadline sample_env ''2024-05-01'' = Some (today sample_env)"
    by (simp add: task_milk_def parseDeadline_def sample_env_def)
  have b: "completed task_report" by (simp add: task_report_def)
  have c: "deadline task_call = None" by (simp add: task_call_def)
  from a b c deadline_today[of task_milk "''2024-05-01''" sample_env]
    deadline_today[of task_report "''''" sample_env]
    deadline_today[of task_call "''''" sample_env]
  show ?thesis by blast
qed

subsection \<open>The visible list under the filter overdue\<close>

lemma mset_insert_cmp: "mset (insert_cmp cmp x xs) = add_mset x (mset xs)"
  by (induction xs) auto

lemma mset_Array_sort: "mset (Array_sort cmp xs) = mset xs"
  by (induction xs) (auto simp: Array_sort_def mset_insert_cmp)

lemma mset_applySort: "mset (applySort e s xs) = mset xs"
  by (simp add: applySort_def mset_Array_sort)

lemma isOverdue_iff:
  "isOverdue e t \<longleftrightarrow>
     (\<not> completed t \<and> (\<exists>d due. deadline t = Some d \<and> d \<noteq> [] \<and> parseDeadline e d = Some due \<and> due < today e))"
  by (auto simp: isOverdue_def split: option.splits)

text \<open>
  Claim C3. Under the filter \<open>overdue\<close> and any sort, \<open>getVisible()\<close> returns exactly the
  tasks of the collection (each as often as it occurs there) that are not completed, have
  a deadline (a date string, not \<open>null\<close> and not the empty string) and whose deadline's
  local midnight is strictly before today's local midnight. It contains no completed task
  and no task without a deadline.
\<close>

theorem getVisible_overdue:
  "mset (getVisible e (st\<lparr>currentFilter := ''overdue''\<rparr>)) =
     mset (filter (\<lambda>t. \<not> completed t \<and>
                        (\<exists>d due. deadline t = Some d \<and> d \<noteq> [] \<and>
                                  parseDeadline e d = Some due \<and> due < today e))
             (todos st)) \<and>
   (\<forall>t \<in> set (getVisible e (st\<lparr>currentFilter := ''overdue''\<rparr>)).
      \<not> completed t \<and> deadline t \<noteq> None)"
proof -
  have m: "mset (getVisible e (st\<lparr>currentFilter := ''overdue''\<rparr>)) = mset (filter (isOverdue e) (todos st))"
    by (simp add: getVisible_def mset_applySort applyFilter_def)
  have f: "filter (isOverdue e) (todos st) =
     filter (\<lambda>t. \<not> completed t \<and>
                        (\<exists>d due. deadline t = Some d \<and> d \<noteq> [] \<and>
                                  parseDeadline e d = Some due \<and> due < today e)) (todos st)"
    by (rule filter_cong) (simp_all add: isOverdue_iff)
  have "set_mset (mset (getVisible e (st\<lparr>currentFilter := ''overdue''\<rparr>))) = set_mset (mset (filter (isOverdue e) (todos st)))"
    using m by (rule arg_cong)
  then have s: "set (getVisible e (st\<lparr>currentFilter := ''overdue''\<rparr>)) = set (filter (isOverdue e) (todos st))"
    by (simp only: set_mset_mset)
  have "\<forall>t \<in> set (getVisible e (st\<lparr>currentFilter := ''overdue''\<rparr>)). \<not> completed t \<and> deadline t \<noteq> None"
    unfolding s by (auto simp: isOverdue_iff)
  with m f show ?thesis by (simp only:) 
qed

text \<open>Of the four sample tasks only the open one due on 30 April is overdue on 1 May.\<close>

lemma sample_overdue:
  "\<not> isOverdue sample_env task_milk" "\<not> isOverdue sample_env task_call"
  "\<not> isOverdue sample_env task_report" "isOverdue sample_env task_rent"
  by (simp_all add: isOverdue_def parseDeadline_def sample_env_def task_milk_def task_call_def
        task_report_def task_rent_def)

theorem getVisible_overdue_witness:
  "getVisible sample_env (sample_store\<lparr>currentFilter := ''overdue''\<rparr>) = [task_rent] \<and>
   \<not> completed task_rent \<and> deadline task_rent \<noteq> None"
proof -
  have v: "getVisible sample_env (sample_store\<lparr>currentFilter := ''overdue''\<rparr>) = [task_rent]"
    by (simp add: getVisible_def applyFilter_def applySort_def Array_sort_def sample_overdue
        sample_store_def)
  from getVisible_overdue[of sample_env sample_store]
  have "\<forall>t \<in> set (getVisible sample_env (sample_store\<lparr>currentFilter := ''overdue''\<rparr>)).
      \<not> completed t \<and> deadline t \<noteq> None" by (rule conjunct2)
  then have "\<not> completed task_rent \<and> deadline task_rent \<noteq> None"
    unfolding v by simp
  with v show ?thesis by blast
qed

subsection \<open>The visible list under the sort priority\<close>

lemma insert_cmp_skip:
  "\<forall>y \<in> set ps. cmp x y > 0 \<Longrightarrow> insert_cmp cmp x (ps @ qs) = ps @ insert_cmp cmp x qs"
  by (induction ps) auto

lemma insert_cmp_stop:
  "\<forall>y \<in> set qs. cmp x y \<le> 0 \<Longrightarrow> insert_cmp cmp x qs = x # qs"
  by (cases qs) auto

lemma sort_priority_blocks:
  "Array_sort (\<lambda>a b. priorityValue (priority b) - priorityValue (priority a)) xs =
     filter (\<lambda>t. priority t = ''high'') xs @
     filter (\<lambda>t. priority t \<noteq> ''high'' \<and> priority t \<noteq> ''low'') xs @
     filter (\<lambda>t. priority t = ''low'') xs"
  (is "Array_sort ?cmp xs = ?H xs @ ?M xs @ ?L xs")
proof (induction xs)
  case Nil
  show ?case by (simp add: Array_sort_def)
next
  case (Cons x xs)
  have step: "Array_sort ?cmp (x # xs) = insert_cmp ?cmp x (?H xs @ ?M xs @ ?L xs)"
    using Cons.IH by (simp add: Array_sort_def)
  consider (high) "priority x = ''high''"
    | (low) "priority x = ''low''"
    | (mid) "priority x \<noteq> ''high''" "priority x \<noteq> ''low''" by blast
  then show ?case
  proof cases
    case high
    have "insert_cmp ?cmp x (?H xs @ ?M xs @ ?L xs) = x # (?H xs @ ?M xs @ ?L xs)"
      by (rule insert_cmp_stop) (simp add: high priorityValue_def)
    with step high show ?thesis by simp
  next
    case low
    have a: "insert_cmp ?cmp x ((?H xs @ ?M xs) @ ?L xs) = (?H xs @ ?M xs) @ insert_cmp ?cmp x (?L xs)"
      by (rule insert_cmp_skip) (auto simp: low priorityValue_def)
    have b: "insert_cmp ?cmp x (?L xs) = x # ?L xs"
      by (rule insert_cmp_stop) (simp add: low priorityValue_def)
    from step a b low show ?thesis by simp
  next
    case mid
    have a: "insert_cmp ?cmp x (?H xs @ (?M xs @ ?L xs)) = ?H xs @ insert_cmp ?cmp x (?M xs @ ?L xs)"
      by (rule insert_cmp_skip) (auto simp: mid priorityValue_def)
    have b: "insert_cmp ?cmp x (?M xs @ ?L xs) = x # (?M xs @ ?L xs)"
      by (rule insert_cmp_stop) (auto simp: mid priorityValue_def)
    from step a b mid show ?thesis by simp
  qed
qed

text \<open>
  Claim C6. Under the sort \<open>priority\<close>, \<open>getVisible()\<close> is the filtered list rearranged
  into three blocks: the tasks of priority \<open>high\<close>, then those of rank 2 (\<open>medium\<close>, and
  any priority that is neither \<open>high\<close> nor \<open>low\<close>), then those of priority \<open>low\<close>;
  inside each block the tasks stand in the order they had in the filtered list.
\<close>

theorem getVisible_priority:
  "getVisible e (st\<lparr>currentSort := ''priority''\<rparr>) =
     filter (\<lambda>t. priority t = ''high'') (applyFilter e (currentFilter st) (todos st)) @
     filter (\<lambda>t. priority t \<noteq> ''high'' \<and> priority t \<noteq> ''low'')
       (applyFilter e (currentFilter st) (todos st)) @
     filter (\<lambda>t. priority t = ''low'') (applyFilter e (currentFilter st) (todos st))"
  by (simp add: getVisible_def applySort_def sort_priority_blocks)

text \<open>
  The sample collection, stored as low, high, medium, high: the two high tasks come
  first in their stored order, then the medium task, then the low one.
\<close>

theorem getVisible_priority_witness:
  "getVisible sample_env (sample_store\<lparr>currentSort := ''priority''\<rparr>) =
     [task_call, task_rent, task_report, task_milk]"
proof -
  have p: "priority task_milk = ''low''" "priority task_call = ''high''"
    "priority task_report = ''medium''" "priority task_rent = ''high''"
    by (simp_all add: task_milk_def task_call_def task_report_def task_rent_def)
  have a: "applyFilter sample_env (currentFilter sample_store) (todos sample_store) =
     [task_milk, task_call, task_report, task_rent]"
    by (simp add: applyFilter_def sample_store_def)
  show ?thesis
    unfolding getVisible_priority a by (simp add: p)
qed

subsection \<open>The priority field\<close>

text \<open>
  Claim C4 as stated fails: \<open>add\<close> stores whatever non-empty priority it is given. From the
  initial state, \<open>add('buy milk', {priority: 'urgent'})\<close> leaves a task whose priority is
  \<open>urgent\<close>.
\<close>

theorem arbitrary_priority_counterexample:
  "map priority (todos (run [Add sample_env ''buy milk''
      \<lparr>opt_deadline = None, opt_priority = Some ''urgent'', opt_categories = None\<rparr>])) = [''urgent'']
   \<and> \<not> recognised ''urgent''"
  by (simp add: run_def init_store_def add_def save_def Let_def trim_def isWhiteSpace_def
      whiteSpace_def isContinuation_def recognised_def)

lemma modify_first_keeps:
  assumes "list_all P xs" and "\<And>x. P x \<Longrightarrow> P (f x)"
  shows "list_all P (modify_first p f xs)"
  using assms by (induction xs) auto

lemma exec_keeps_recognised:
  assumes "suppliesRecognised a" and "list_all (\<lambda>t. recognised (priority t)) (todos st)"
  shows "list_all (\<lambda>t. recognised (priority t)) (todos (exec a st))"
proof (cases a)
  case (Load stored)
  with assms(1) show ?thesis
    by (auto simp: load_def migrate_def list_all_iff recognised_def split: option.splits)
next
  case (Add e s opts)
  with assms show ?thesis
    by (auto simp: add_def save_def Let_def recognised_def split: option.splits)
next
  case (Toggle i)
  with assms(2) show ?thesis
    by (auto simp: toggle_def save_def split: option.splits intro!: modify_first_keeps)
next
  case (Update i s)
  with assms(2) show ?thesis
    by (auto simp: update_def save_def Let_def split: option.splits intro!: modify_first_keeps)
next
  case (Remove i)
  with assms(2) show ?thesis
    by (auto simp: remove_def save_def list_all_iff)
next
  case (AddSubtask e i s)
  with assms(2) show ?thesis
    by (auto simp: addSubtask_def save_def Let_def split: option.splits intro!: modify_first_keeps)
next
  case (ToggleSubtask i j)
  with assms(2) show ?thesis
    by (auto simp: toggleSubtask_def save_def split: option.splits intro!: modify_first_keeps)
next
  case (RemoveSubtask i j)
  with assms(2) show ?thesis
    by (auto simp: removeSubtask_def save_def split: option.splits intro!: modify_first_keeps)
qed (use assms(2) in simp_all)

lemma fold_exec_keeps_recognised:
  "list_all suppliesRecognised as \<Longrightarrow> list_all (\<lambda>t. recognised (priority t)) (todos st) \<Longrightarrow>
   list_all (\<lambda>t. recognised (priority t)) (todos (fold exec as st))"
  by (induction as arbitrary: st) (auto simp: exec_keeps_recognised)

lemma add_priority:
  "trim txt \<noteq> [] \<Longrightarrow>
   priority (hd (todos (add e txt opts st))) =
     (case opt_priority opts of None \<Rightarrow> ''medium'' | Some p \<Rightarrow> if p = [] then ''medium'' else p)"
  by (simp add: add_def save_def Let_def)

text \<open>
  Claim C4, amended. In every state reached from the initial state by operations whose
  \<open>add\<close> calls pass no priority, the empty string or one of \<open>low\<close>, \<open>medium\<close>, \<open>high\<close>,
  and whose \<open>load\<close> calls read records with a missing or recognised priority, every
  task's priority is one of \<open>low\<close>, \<open>medium\<close>, \<open>high\<close>. An \<open>add\<close> with a non-blank text
  stores \<open>medium\<close> when the priority is unspecified or empty, and the given priority
  unchanged otherwise.
\<close>

theorem priorities_stay_recognised:
  "(list_all suppliesRecognised as \<longrightarrow>
      list_all (\<lambda>t. recognised (priority t)) (todos (run as))) \<and>
   (trim txt \<noteq> [] \<longrightarrow>
      priority (hd (todos (add e txt opts st))) =
        (case opt_priority opts of
           None \<Rightarrow> ''medium''
         | Some p \<Rightarrow> if p = [] then ''medium'' else p))"
  by (simp add: run_def fold_exec_keeps_recognised init_store_def add_priority)

text \<open>A load, two adds and a toggle; and an add without a priority.\<close>

theorem priorities_stay_recognised_witness:
  "list_all suppliesRecognised
     [Load (Holds [stored_old, stored_new]),
      Add sample_env ''buy milk'' \<lparr>opt_deadline = None, opt_priority = None, opt_categories = None\<rparr>,
      Toggle ''todo_1'',
      Add sample_env ''call the bank''
        \<lparr>opt_deadline = Some ''2024-05-02'', opt_priority = Some ''high'', opt_categories = None\<rparr>] \<and>
   list_all (\<lambda>t. recognised (priority t))
     (todos (run
       [Load (Holds [stored_old, stored_new]),
        Add sample_env ''buy milk'' \<lparr>opt_deadline = None, opt_priority = None, opt_categories = None\<rparr>,
        Toggle ''todo_1'',
        Add sample_env ''call the bank''
          \<lparr>opt_deadline = Some ''2024-05-02'', opt_priority = Some ''high'', opt_categories = None\<rparr>])) \<and>
   trim ''buy milk'' \<noteq> [] \<and>
   priority (hd (todos (add sample_env ''buy milk''
      \<lparr>opt_deadline = None, opt_priority = None, opt_categories = None\<rparr> sample_store))) = ''medium''"
proof -
  let ?as = "[Load (Holds [stored_old, stored_new]),
      Add sample_env ''buy milk'' \<lparr>opt_deadline = None, opt_priority = None, opt_categories = None\<rparr>,
      Toggle ''todo_1'',
      Add sample_env ''call the bank''
        \<lparr>opt_deadline = Some ''2024-05-02'', opt_priority = Some ''high'', opt_categories = None\<rparr>]"
  let ?o = "\<lparr>opt_deadline = None, opt_priority = None, opt_categories = None\<rparr>"
  have h: "list_all suppliesRecognised ?as"
    by (simp add: Storage_get_def stored_old_def stored_new_def recognised_def)
  have t: "trim ''buy milk'' \<noteq> []"
    by (simp add: trim_def isWhiteSpace_def whiteSpace_def isContinuation_def)
  from priorities_stay_recognised[of ?as "''buy milk''" sample_env ?o sample_store] h t
  show ?thesis by simp
qed

section \<open>Properties of the Link Store\<close>

subsection \<open>Adding a link\<close>

lemma autoDescribe_unparsed: "URL_parse e u = None \<Longrightarrow> autoDescribe e u = u"
  by (simp add: autoDescribe_def)

lemma trim_not_a_url: "trim ''not a url'' = ''not a url''"
  by (simp add: trim_def isWhiteSpace_def whiteSpace_def isContinuation_def)

lemma showInt_sample: "showInt 1714557600000 = ''1714557600000''"
  by (simp add: showInt_def dec.simps digit_def)

lemma no_scheme_not_a_url: "\<not> hasHttpScheme ''not a url''"
  by (simp add: hasHttpScheme_def starts_ci_def toLower_def isUpper_def)

text \<open>
  Claim C2 as stated fails: \<open>add\<close> does not decline a malformed URL. For the input
  \<open>not a url\<close>, whose normalised form \<open>https://not a url\<close> the URL constructor rejects,
  a record is created; its description is the URL itself.
\<close>

theorem malformed_url_counterexample:
  "trim ''not a url'' \<noteq> [] \<and>
   URL_parse sample_env ''https://not a url'' = None \<and>
   links (Links_add sample_env ''not a url'' empty_links) =
     [\<lparr>link_id = ''link_1714557600000_k3x9q'', url = ''https://not a url'',
       description = ''https://not a url'', link_createdAt = 1714557600001\<rparr>]"
proof -
  have e: "Date_now_id sample_env = 1714557600000" "random_suffix sample_env = ''k3x9q''"
    "Date_now sample_env = 1714557600001" "URL_parse sample_env ''https://not a url'' = None"
    by (simp_all add: sample_env_def)
  have d: "autoDescribe sample_env ''https://not a url'' = ''https://not a url''"
    by (rule autoDescribe_unparsed) (rule e(4))
  show ?thesis
    by (simp add: Links_add_def Links_save_def Let_def trim_not_a_url no_scheme_not_a_url e
        showInt_sample d empty_links_def)
qed

text \<open>
  Claim C2, amended. For every input that is not blank, parseable as a URL or not, \<open>add\<close>
  prepends one record and writes the collection; the record's URL is the trimmed input,
  with \<open>https://\<close> put before it unless it starts with \<open>http://\<close> or \<open>https://\<close>; when
  that URL cannot be parsed the description is the URL itself. No exception is surfaced:
  the failure of the URL constructor is a branch of \<open>autoDescribe\<close>.
\<close>

theorem Links_add_creates:
  assumes "trim raw \<noteq> []"
  shows "\<exists>l. links (Links_add e raw st) = l # links st \<and>
             links_written (Links_add e raw st) = (l # links st) # links_written st \<and>
             url l = (if hasHttpScheme (trim raw) then trim raw else ''https://'' @ trim raw) \<and>
             (URL_parse e (url l) = None \<longrightarrow> description l = url l)"
proof -
  define u where "u = (if hasHttpScheme (trim raw) then trim raw else ''https://'' @ trim raw)"
  define l where "l = \<lparr>link_id = ''link_'' @ showInt (Date_now_id e) @ ''_'' @ random_suffix e,
     url = u, description = autoDescribe e u, link_createdAt = Date_now e\<rparr>"
  have a: "Links_add e raw st = Links_save (st\<lparr>links := l # links st\<rparr>)"
    using assms by (simp add: Links_add_def Let_def l_def u_def)
  have f1: "links (Links_add e raw st) = l # links st"
    and f2: "links_written (Links_add e raw st) = (l # links st) # links_written st"
    unfolding a by (simp_all add: Links_save_def)
  have f3: "url l = (if hasHttpScheme (trim raw) then trim raw else ''https://'' @ trim raw)"
    by (simp add: l_def u_def)
  have f4: "URL_parse e (url l) = None \<longrightarrow> description l = url l"
    by (simp add: l_def autoDescribe_unparsed)
  show ?thesis
    by (rule exI[of _ l]) (intro conjI f1 f2 f3 f4)
qed

text \<open>The input \<open>not a url\<close> again, through the theorem.\<close>

theorem Links_add_creates_witness:
  "trim ''not a url'' \<noteq> [] \<and>
   (\<exists>l. links (Links_add sample_env ''not a url'' empty_links) = [l] \<and>
        links_written (Links_add sample_env ''not a url'' empty_links) = [[l]] \<and>
        url l = ''https://not a url'' \<and> description l = ''https://not a url'')"
proof -
  have t: "trim ''not a url'' \<noteq> []" by (simp add: trim_not_a_url)
  have p: "URL_parse sample_env ''https://not a url'' = None" by (simp add: sample_env_def)
  have c: "links empty_links = []" "links_written empty_links = []"
    by (simp_all add: empty_links_def)
  from Links_add_creates[OF t, of sample_env empty_links] obtain l where
    h: "links (Links_add sample_env ''not a url'' empty_links) = l # links empty_links"
       "links_written (Links_add sample_env ''not a url'' empty_links) =
          (l # links empty_links) # links_written empty_links"
       "url l = (if hasHttpScheme (trim ''not a url'') then trim ''not a url''
                 else ''https://'' @ trim ''not a url'')"
       "URL_parse sample_env (url l) = None \<longrightarrow> description l = url l"
    by (elim exE conjE)
  have u: "url l = ''https://not a url''"
    using h(3) by (simp only: trim_not_a_url no_scheme_not_a_url if_False append.simps)
  have d: "description l = ''https://not a url''"
    using h(4)[unfolded u] p by (rule mp)
  show ?thesis
    by (intro conjI exI[of _ l] t h(1)[unfolded c] h(2)[unfolded c] u d)
qed

text \<open>
  Claim C10. For an input that is not blank and whose trimmed form does not start with
  \<open>http://\<close> or \<open>https://\<close> (in any case of the letters), the URL of the record that
  \<open>add\<close> prepends is \<open>https://\<close> followed by the trimmed input. No other scheme is
  recognised.
\<close>

theorem Links_add_default_scheme:
  "trim raw \<noteq> [] \<Longrightarrow> \<not> hasHttpScheme (trim raw) \<Longrightarrow>
   map url (links (Links_add e raw st)) = (''https://'' @ trim raw) # map url (links st)"
  by (simp add: Links_add_def Links_save_def Let_def)

lemma trim_ftp: "trim ''ftp://example.com'' = ''ftp://example.com''"
  by (simp add: trim_def isWhiteSpace_def whiteSpace_def isContinuation_def)

text \<open>\<open>ftp://example.com\<close> is stored as \<open>https://ftp://example.com\<close>.\<close>

theorem Links_add_default_scheme_witness:
  "trim ''ftp://example.com'' \<noteq> [] \<and> \<not> hasHttpScheme (trim ''ftp://example.com'') \<and>
   map url (links (Links_add sample_env ''ftp://example.com'' empty_links)) =
     [''https://ftp://example.com'']"
proof -
  have a: "trim ''ftp://example.com'' \<noteq> []" by (simp add: trim_ftp)
  have b: "\<not> hasHttpScheme (trim ''ftp://example.com'')"
    by (simp add: trim_ftp hasHttpScheme_def starts_ci_def toLower_def isUpper_def)
  have c: "links empty_links = []" by (simp add: empty_links_def)
  have "map url (links (Links_add sample_env ''ftp://example.com'' empty_links)) =
     [''https://ftp://example.com'']"
    using Links_add_default_scheme[OF a b, of sample_env empty_links]
    by (simp add: trim_ftp c)
  with a b show ?thesis by simp
qed

subsection \<open>The voice handler\<close>

lemma transcript_not_url_like: "\<not> looksLikeUrl ''github dot com slash octocat''"
  by (simp add: looksLikeUrl_def matchHere_def isWordChar_def isUpper_def isLower_def isDigit_def)

lemma transcript_search_url:
  "searchUrl ''github dot com slash octocat'' =
     ''https://www.google.com/search?q=github%20dot%20com%20slash%20octocat''"
  by code_simp

lemma trim_search_url:
  "trim ''https://www.google.com/search?q=github%20dot%20com%20slash%20octocat'' =
     ''https://www.google.com/search?q=github%20dot%20com%20slash%20octocat''"
  by (simp add: trim_def isWhiteSpace_def whiteSpace_def isContinuation_def)

lemma scheme_search_url:
  "hasHttpScheme ''https://www.google.com/search?q=github%20dot%20com%20slash%20octocat''"
  by (simp add: hasHttpScheme_def starts_ci_def toLower_def isUpper_def)

text \<open>
  Claim C1. The transcript \<open>github dot com slash octocat\<close> holds no dot, so the test for
  a URL-like transcript fails and the handler adds the search link; the stored URL is
  \<open>https://www.google.com/search?q=github%20dot%20com%20slash%20octocat\<close> and not
  \<open>https://github.com/octocat\<close>. The comment in the source promises
  \<open>github.com/user\<close> for such a transcript.
\<close>

theorem voice_github_dot_com:
  "\<not> looksLikeUrl ''github dot com slash octocat'' \<and>
   map url (links (onResult e ''github dot com slash octocat'' empty_links)) =
     [''https://www.google.com/search?q=github%20dot%20com%20slash%20octocat'']"
proof -
  have a: "onResult e ''github dot com slash octocat'' empty_links =
     Links_add e ''https://www.google.com/search?q=github%20dot%20com%20slash%20octocat'' empty_links"
    by (simp only: onResult_def transcript_not_url_like transcript_search_url if_False)
  have b: "map url (links (Links_add e
       ''https://www.google.com/search?q=github%20dot%20com%20slash%20octocat'' empty_links)) =
     [''https://www.google.com/search?q=github%20dot%20com%20slash%20octocat'']"
    by (simp add: Links_add_def trim_search_url scheme_search_url Let_def Links_save_def
        empty_links_def)
  show ?thesis
    unfolding a by (intro conjI transcript_not_url_like b)
qed

text \<open>
  The replacement itself leaves the word \<open>slash\<close> in place, and the test accepts the
  transcript only when the dot is already written.
\<close>

lemma cleaned_keeps_slash:
  "looksLikeUrl ''github.com slash octocat'' \<and>
   replaceDot (removeSpaces ''github dot com slash octocat'') = ''github.comslashoctocat''"
  by code_simp

end
